theory Spec2Isabelle
  imports Complex_Main
begin

section \<open>The target board of \<open>TargetBoard.tsx\<close>\<close>

text \<open>
  The component keeps a pan/zoom transform, a list of committed dots, an optional
  temporary dot and the bookkeeping of the gesture in flight in React state, and seven
  event handlers update that state. The embedding below follows the handlers one by one.

  Conventions of the embedding.
  \<^item> A JavaScript \<open>number\<close> is a \<^typ>\<open>real\<close>: arithmetic is exact, which is what the
    specification's "within floating tolerance" abstracts to. The handlers divide by
    the scale and by the last finger distance only. The latter is tested for truthiness
    first; the scale of every reachable state lies in \<open>[0.1, 5]\<close>, and the theorems that
    compute a quotient by the scale assume a well-formed state or a scale that is not
    zero, so HOL's \<open>x / 0 = 0\<close> is never relied on.
  \<^item> \<open>T | null\<close> is \<^typ>\<open>'a option\<close>; the truthiness tests of the source
    (\<open>if (longPressTimer)\<close>, \<open>lastTouchDistance && ...\<close>) are the functions \<open>truthy_*\<close>.
  \<^item> A record field \<open>x\<close> of the source carries the record's prefix here
    (\<open>t_x\<close>, \<open>dot_x\<close>, \<open>p_x\<close>, ...), since a field name is a constant in HOL.
  \<^item> The handlers come twice. First as functions of one state (\<open>step\<close>, \<open>run\<close>): the
    component has re-rendered when the next event arrives, so a handler reads the state
    its predecessor left. Then as closures of a render (\<open>stepAt\<close>, \<open>runAt\<close>): a handler
    reads the state of the render that created it and updates the current state, and
    renders are occurrences of their own. The two agree whenever a render has followed
    every event. In both, a pending timer stores the transform of the render that
    scheduled it, which its callback converts the press with.
\<close>

subsection \<open>Data\<close>

record TransformProps =
  t_x :: real
  t_y :: real
  t_scale :: real

record Dot =
  dot_id :: string
  dot_x :: real
  dot_y :: real
  isTemporary :: bool
  isDragging :: bool

record RingInfo =
  outerRadius :: real
  innerRadius :: real
  color :: string
  index :: nat

text \<open>The anonymous objects \<open>{x, y}\<close> and \<open>{x, y, radius}\<close> of the source.\<close>

record point =
  p_x :: real
  p_y :: real

record circle =
  c_x :: real
  c_y :: real
  radius :: real

subsection \<open>Constants (\<open>constant.ts\<close>)\<close>

definition ringColors :: "string list" where
  "ringColors =
     [''#fff'', ''#fff'', ''#000'', ''#000'', ''#2196f3'', ''#2196f3'',
      ''#d50000'', ''#d50000'', ''#ffd600'', ''#ffd600'']"

definition initialRingRadius :: real where
  "initialRingRadius = 180"

definition ringGap :: real where
  "ringGap = 18"

subsection \<open>Geometry and the coordinate transform\<close>

definition getRings :: "RingInfo list" where
  "getRings =
     map (\<lambda>(i, c).
            let outerR = initialRingRadius - real i * ringGap;
                innerR = outerR - ringGap
            in \<lparr>outerRadius = outerR, innerRadius = innerR, color = c, index = i\<rparr>)
         (enumerate 0 ringColors)"

definition screenToTarget :: "TransformProps \<Rightarrow> real \<Rightarrow> real \<Rightarrow> point" where
  "screenToTarget T screenX screenY =
     \<lparr>p_x = (screenX - t_x T) / t_scale T, p_y = (screenY - t_y T) / t_scale T\<rparr>"

definition targetToScreen :: "TransformProps \<Rightarrow> real \<Rightarrow> real \<Rightarrow> point" where
  "targetToScreen T targetX targetY =
     \<lparr>p_x = targetX * t_scale T + t_x T, p_y = targetY * t_scale T + t_y T\<rparr>"

text \<open>
  The \<open>for\<close> loop of \<open>getRingAtPoint\<close>: the first index whose ring holds the distance.
\<close>

function ringLoop :: "RingInfo list \<Rightarrow> real \<Rightarrow> nat \<Rightarrow> nat option" where
  "ringLoop rings distance i =
     (if i < length rings
      then (let ring = rings ! i
            in if distance \<le> outerRadius ring \<and> distance > innerRadius ring
               then Some i
               else ringLoop rings distance (i + 1))
      else None)"
  by pat_completeness auto
termination
  by (relation "measure (\<lambda>(rings, distance, i). length rings - i)") auto

declare ringLoop.simps [simp del]

definition getRingAtPoint :: "real \<Rightarrow> real \<Rightarrow> nat option" where
  "getRingAtPoint x y =
     (let rings = getRings;
          distance = sqrt (x * x + y * y)
      in ringLoop rings distance 0)"

definition getDistance :: "real \<Rightarrow> real \<Rightarrow> real \<Rightarrow> real \<Rightarrow> real" where
  "getDistance x1 y1 x2 y2 = sqrt ((x2 - x1)\<^sup>2 + (y2 - y1)\<^sup>2)"

definition getCenter :: "real \<Rightarrow> real \<Rightarrow> real \<Rightarrow> real \<Rightarrow> point" where
  "getCenter x1 y1 x2 y2 = \<lparr>p_x = (x1 + x2) / 2, p_y = (y1 + y2) / 2\<rparr>"

text \<open>
  \<open>Math.max(...ds)\<close>. With no argument JavaScript returns \<open>-Infinity\<close>, which is not a
  real number: the function has no equation for the empty list, and
  \<open>calculateEnclosingCircle\<close> has returned \<open>null\<close> for no dots before it reaches the call.
\<close>

fun Math_max :: "real list \<Rightarrow> real" where
  "Math_max [d] = d"
| "Math_max (d # e # ds) = Math_max (max d e # ds)"

fun calculateEnclosingCircle :: "Dot list \<Rightarrow> circle option" where
  "calculateEnclosingCircle [] = None"
| "calculateEnclosingCircle (d # ds) =
     (let allDots = d # ds;
          targetDots = map (\<lambda>dot. \<lparr>p_x = dot_x dot, p_y = dot_y dot\<rparr>) allDots;
          centerX = foldl (\<lambda>sum dot. sum + p_x dot) 0 targetDots / real (length targetDots);
          centerY = foldl (\<lambda>sum dot. sum + p_y dot) 0 targetDots / real (length targetDots);
          maxDistance =
            Math_max (map (\<lambda>dot. sqrt ((p_x dot - centerX)\<^sup>2 + (p_y dot - centerY)\<^sup>2))
                          targetDots)
      in Some \<lparr>c_x = centerX, c_y = centerY, radius = maxDistance\<rparr>)"

subsection \<open>Component state and the browser's timers\<close>

record Touch =
  clientX :: real
  clientY :: real

text \<open>\<open>canvasRef.current?.getBoundingClientRect()\<close>: \<open>None\<close> while the canvas is not mounted.\<close>

record DOMRect =
  rect_left :: real
  rect_top :: real

record MouseDownInfo =
  md_x :: real
  md_y :: real
  md_screenX :: real
  md_screenY :: real
  md_time :: nat
  md_longPress :: bool

record TouchStartInfo =
  ts_x :: real
  ts_y :: real
  ts_time :: nat
  ts_longPress :: bool

text \<open>
  A timer that \<open>window.setTimeout\<close> has scheduled and that has neither fired nor been
  cleared: its handle, which handler scheduled it, and what its callback closes over
  (the canvas coordinates of the press and the transform behind \<open>screenToTarget\<close>).
\<close>

datatype TimerOwner = TouchPress | MousePress

record Timer =
  tm_handle :: nat
  tm_owner :: TimerOwner
  tm_x :: real
  tm_y :: real
  tm_transform :: TransformProps

text \<open>
  The \<open>useState\<close> cells of the component, followed by the two pieces of the browser the
  handlers act on: the pending timers and the handle \<open>setTimeout\<close> returns next
  (handles are positive and never reused). The \<open>enclosingCircle\<close> cell is set by an effect
  from \<open>dots\<close> and \<open>temporaryDot\<close> after every change of either, so it is the derived
  value \<open>enclosingCircle\<close> below.
\<close>

record State =
  transform :: TransformProps
  dots :: "Dot list"
  temporaryDot :: "Dot option"
  highlightedRing :: "nat option"
  lastTouchDistance :: "real option"
  lastTouchCenter :: "point option"
  longPressTimer :: "nat option"
  draggedDotId :: "string option"
  mouseDownInfo :: "MouseDownInfo option"
  touchStartInfo :: "TouchStartInfo option"
  wasPinch :: bool
  pendingTimers :: "Timer list"
  nextHandle :: nat

definition initialState :: "real \<Rightarrow> real \<Rightarrow> State" where
  "initialState width height =
     \<lparr>transform = \<lparr>t_x = width / 2, t_y = height / 2, t_scale = 1\<rparr>,
      dots = [],
      temporaryDot = None,
      highlightedRing = None,
      lastTouchDistance = None,
      lastTouchCenter = None,
      longPressTimer = None,
      draggedDotId = None,
      mouseDownInfo = None,
      touchStartInfo = None,
      wasPinch = False,
      pendingTimers = [],
      nextHandle = 1\<rparr>"

definition enclosingCircle :: "State \<Rightarrow> circle option" where
  "enclosingCircle s =
     (let allDots = (case temporaryDot s of Some t \<Rightarrow> dots s @ [t] | None \<Rightarrow> dots s)
      in calculateEnclosingCircle allDots)"

text \<open>JavaScript truthiness of a \<open>number | null\<close> and of a \<open>string | null\<close>.\<close>

definition truthy_number :: "real option \<Rightarrow> bool" where
  "truthy_number v = (case v of None \<Rightarrow> False | Some r \<Rightarrow> r \<noteq> 0)"

definition truthy_handle :: "nat option \<Rightarrow> bool" where
  "truthy_handle v = (case v of None \<Rightarrow> False | Some h \<Rightarrow> h \<noteq> 0)"

definition truthy_string :: "string option \<Rightarrow> bool" where
  "truthy_string v = (case v of None \<Rightarrow> False | Some str \<Rightarrow> str \<noteq> [])"

definition setTimeout :: "TimerOwner \<Rightarrow> real \<Rightarrow> real \<Rightarrow> State \<Rightarrow> State" where
  "setTimeout owner x y s =
     s\<lparr>pendingTimers :=
         pendingTimers s @
           [\<lparr>tm_handle = nextHandle s, tm_owner = owner, tm_x = x, tm_y = y,
             tm_transform = transform s\<rparr>],
       nextHandle := nextHandle s + 1\<rparr>"

definition clearTimeout :: "nat \<Rightarrow> State \<Rightarrow> State" where
  "clearTimeout h s = s\<lparr>pendingTimers := filter (\<lambda>t. tm_handle t \<noteq> h) (pendingTimers s)\<rparr>"

text \<open>
  The first statement of \<open>handleTouchEnd\<close> and \<open>handleMouseUp\<close>, and of the two-touch
  branch of \<open>handleTouchStart\<close>.
\<close>

definition cancelLongPress :: "State \<Rightarrow> State" where
  "cancelLongPress s =
     (if truthy_handle (longPressTimer s)
      then (clearTimeout (the (longPressTimer s)) s)\<lparr>longPressTimer := None\<rparr>
      else s)"

subsection \<open>The handlers\<close>

text \<open>
  The callback of the long-press timer. \<open>uuid\<close> is what \<open>uuidv4()\<close> returns in it.
\<close>

definition longPress :: "string \<Rightarrow> Timer \<Rightarrow> State \<Rightarrow> State" where
  "longPress uuid tm s =
     (let target = screenToTarget (tm_transform tm) (tm_x tm) (tm_y tm);
          newTemporaryDot =
            \<lparr>dot_id = uuid, dot_x = p_x target, dot_y = p_y target,
             isTemporary = True, isDragging = True\<rparr>;
          s1 = s\<lparr>temporaryDot := Some newTemporaryDot,
                 draggedDotId := Some (dot_id newTemporaryDot)\<rparr>
      in case tm_owner tm of
           TouchPress \<Rightarrow>
             s1\<lparr>touchStartInfo :=
                  map_option (\<lambda>info. info\<lparr>ts_longPress := True\<rparr>) (touchStartInfo s1)\<rparr>
         | MousePress \<Rightarrow>
             s1\<lparr>mouseDownInfo :=
                  map_option (\<lambda>info. info\<lparr>md_longPress := True\<rparr>) (mouseDownInfo s1)\<rparr>)"

definition handleTouchStart :: "DOMRect option \<Rightarrow> nat \<Rightarrow> Touch list \<Rightarrow> State \<Rightarrow> State" where
  "handleTouchStart rect now touches s =
     (case touches of
        [touch] \<Rightarrow>
          (case rect of
             None \<Rightarrow> s
           | Some r \<Rightarrow>
               (let x = clientX touch - rect_left r;
                    y = clientY touch - rect_top r;
                    s1 = s\<lparr>touchStartInfo :=
                             Some \<lparr>ts_x = x, ts_y = y, ts_time = now, ts_longPress = False\<rparr>,
                           wasPinch := False\<rparr>;
                    timer = nextHandle s1
                in (setTimeout TouchPress x y s1)\<lparr>longPressTimer := Some timer\<rparr>))
      | [touch1, touch2] \<Rightarrow>
          (let s1 = cancelLongPress s
           in case rect of
                None \<Rightarrow> s1
              | Some r \<Rightarrow>
                  (let x1 = clientX touch1 - rect_left r;
                       y1 = clientY touch1 - rect_top r;
                       x2 = clientX touch2 - rect_left r;
                       y2 = clientY touch2 - rect_top r;
                       distance = getDistance x1 y1 x2 y2;
                       center = getCenter x1 y1 x2 y2
                   in s1\<lparr>lastTouchDistance := Some distance,
                         lastTouchCenter := Some center,
                         wasPinch := True\<rparr>))
      | _ \<Rightarrow> s)"

text \<open>
  The body the two move handlers share: the temporary dot follows the pointer, and the
  ring under it is highlighted.
\<close>

definition dragTemporaryDot :: "real \<Rightarrow> real \<Rightarrow> State \<Rightarrow> State" where
  "dragTemporaryDot x y s =
     (let target = screenToTarget (transform s) x y;
          ringIndex = getRingAtPoint (p_x target) (p_y target)
      in s\<lparr>temporaryDot :=
              map_option (\<lambda>prev. prev\<lparr>dot_x := p_x target, dot_y := p_y target\<rparr>)
                (temporaryDot s),
            highlightedRing := ringIndex\<rparr>)"

definition handleTouchMove :: "DOMRect option \<Rightarrow> Touch list \<Rightarrow> State \<Rightarrow> State" where
  "handleTouchMove rect touches s =
     (if length touches = 1 \<and> temporaryDot s \<noteq> None \<and> truthy_string (draggedDotId s)
      then (case rect of
              None \<Rightarrow> s
            | Some r \<Rightarrow>
                (let touch = hd touches
                 in dragTemporaryDot (clientX touch - rect_left r) (clientY touch - rect_top r) s))
      else if length touches = 2 \<and> truthy_number (lastTouchDistance s)
                \<and> lastTouchCenter s \<noteq> None
      then (case rect of
              None \<Rightarrow> s
            | Some r \<Rightarrow>
                (let touch1 = touches ! 0;
                     touch2 = touches ! 1;
                     x1 = clientX touch1 - rect_left r;
                     y1 = clientY touch1 - rect_top r;
                     x2 = clientX touch2 - rect_left r;
                     y2 = clientY touch2 - rect_top r;
                     distance = getDistance x1 y1 x2 y2;
                     center = getCenter x1 y1 x2 y2;
                     scaleChange = distance / the (lastTouchDistance s);
                     newScale = max (1 / 10) (min 5 (t_scale (transform s) * scaleChange));
                     deltaX = p_x center - p_x (the (lastTouchCenter s));
                     deltaY = p_y center - p_y (the (lastTouchCenter s));
                     prev = transform s
                 in s\<lparr>transform :=
                         \<lparr>t_x = t_x prev + deltaX, t_y = t_y prev + deltaY, t_scale = newScale\<rparr>,
                       lastTouchDistance := Some distance,
                       lastTouchCenter := Some center\<rparr>))
      else s)"

text \<open>
  What a release appends: the temporary dot with its flags cleared, or a fresh dot at
  the recorded origin.
\<close>

definition commitTemporaryDot :: "State \<Rightarrow> State" where
  "commitTemporaryDot s =
     s\<lparr>dots := dots s @ [(the (temporaryDot s))\<lparr>isTemporary := False, isDragging := False\<rparr>],
       temporaryDot := None,
       draggedDotId := None,
       highlightedRing := None\<rparr>"

definition addDotAt :: "string \<Rightarrow> real \<Rightarrow> real \<Rightarrow> State \<Rightarrow> State" where
  "addDotAt uuid x y s =
     (let target = screenToTarget (transform s) x y
      in s\<lparr>dots := dots s @
              [\<lparr>dot_id = uuid, dot_x = p_x target, dot_y = p_y target,
                isTemporary = False, isDragging = False\<rparr>]\<rparr>)"

definition handleTouchEnd :: "string \<Rightarrow> Touch list \<Rightarrow> State \<Rightarrow> State" where
  "handleTouchEnd uuid touches s =
     (let s1 = cancelLongPress s
      in if length touches = 0
         then (let s2 =
                     (if truthy_string (draggedDotId s1) \<and> temporaryDot s1 \<noteq> None
                      then commitTemporaryDot s1
                      else if touchStartInfo s1 \<noteq> None
                                \<and> \<not> ts_longPress (the (touchStartInfo s1)) \<and> \<not> wasPinch s1
                      then addDotAt uuid (ts_x (the (touchStartInfo s1)))
                             (ts_y (the (touchStartInfo s1))) s1
                      else s1)
               in s2\<lparr>lastTouchDistance := None,
                     lastTouchCenter := None,
                     touchStartInfo := None,
                     wasPinch := False\<rparr>)
         else s1)"

definition handleMouseDown ::
  "DOMRect option \<Rightarrow> nat \<Rightarrow> nat \<Rightarrow> real \<Rightarrow> real \<Rightarrow> State \<Rightarrow> State" where
  "handleMouseDown rect now button cX cY s =
     (if button \<noteq> 0 then s
      else case rect of
             None \<Rightarrow> s
           | Some r \<Rightarrow>
               (let x = cX - rect_left r;
                    y = cY - rect_top r;
                    s1 = s\<lparr>mouseDownInfo :=
                             Some \<lparr>md_x = x, md_y = y, md_screenX = cX, md_screenY = cY,
                                   md_time = now, md_longPress = False\<rparr>\<rparr>;
                    timer = nextHandle s1
                in (setTimeout MousePress x y s1)\<lparr>longPressTimer := Some timer\<rparr>))"

definition handleMouseMove :: "DOMRect option \<Rightarrow> real \<Rightarrow> real \<Rightarrow> State \<Rightarrow> State" where
  "handleMouseMove rect cX cY s =
     (if temporaryDot s \<noteq> None \<and> truthy_string (draggedDotId s)
      then (case rect of
              None \<Rightarrow> s
            | Some r \<Rightarrow> dragTemporaryDot (cX - rect_left r) (cY - rect_top r) s)
      else s)"

definition handleMouseUp :: "string \<Rightarrow> State \<Rightarrow> State" where
  "handleMouseUp uuid s =
     (let s1 = cancelLongPress s;
          s2 = (if temporaryDot s1 \<noteq> None \<and> truthy_string (draggedDotId s1)
                then commitTemporaryDot s1
                else if mouseDownInfo s1 \<noteq> None \<and> \<not> md_longPress (the (mouseDownInfo s1))
                then addDotAt uuid (md_x (the (mouseDownInfo s1)))
                       (md_y (the (mouseDownInfo s1))) s1
                else s1)
      in s2\<lparr>mouseDownInfo := None\<rparr>)"

definition handleWheel :: "DOMRect option \<Rightarrow> real \<Rightarrow> real \<Rightarrow> real \<Rightarrow> State \<Rightarrow> State" where
  "handleWheel rect deltaY cX cY s =
     (let scaleBy = 11 / 10;
          oldScale = t_scale (transform s);
          left = (case rect of None \<Rightarrow> 0 | Some r \<Rightarrow> rect_left r);
          top = (case rect of None \<Rightarrow> 0 | Some r \<Rightarrow> rect_top r);
          mousePointTo = screenToTarget (transform s) (cX - left) (cY - top);
          newScale0 = (if deltaY < 0 then oldScale * scaleBy else oldScale / scaleBy);
          newScale = max (1 / 10) (min 5 newScale0)
      in s\<lparr>transform :=
              \<lparr>t_x = cX - p_x mousePointTo * newScale,
               t_y = cY - p_y mousePointTo * newScale,
               t_scale = newScale\<rparr>\<rparr>)"

subsection \<open>Events and runs\<close>

text \<open>
  What the browser delivers. The touch events carry \<open>event.touches\<close>, the touches still on
  the screen; the events whose handler may call \<open>uuidv4()\<close> carry the identifier it
  returns; the two presses carry \<open>Date.now()\<close>. \<open>TimerFires h\<close> is the browser running the
  callback of the pending timer \<open>h\<close> (nothing happens when \<open>h\<close> is not pending): the
  long-press duration is the time the browser lets pass before it delivers this event.
\<close>

datatype Event =
    TouchStart nat "Touch list"
  | TouchMove "Touch list"
  | TouchEnd string "Touch list"
  | MouseDown nat nat real real
  | MouseMove real real
  | MouseUp string
  | Wheel real real real
  | TimerFires nat string

definition fireTimer :: "nat \<Rightarrow> string \<Rightarrow> State \<Rightarrow> State" where
  "fireTimer h uuid s =
     (case find (\<lambda>t. tm_handle t = h) (pendingTimers s) of
        None \<Rightarrow> s
      | Some tm \<Rightarrow> longPress uuid tm (clearTimeout h s))"

fun step :: "DOMRect option \<Rightarrow> State \<Rightarrow> Event \<Rightarrow> State" where
  "step rect s (TouchStart now touches) = handleTouchStart rect now touches s"
| "step rect s (TouchMove touches) = handleTouchMove rect touches s"
| "step rect s (TouchEnd uuid touches) = handleTouchEnd uuid touches s"
| "step rect s (MouseDown now button cX cY) = handleMouseDown rect now button cX cY s"
| "step rect s (MouseMove cX cY) = handleMouseMove rect cX cY s"
| "step rect s (MouseUp uuid) = handleMouseUp uuid s"
| "step rect s (Wheel deltaY cX cY) = handleWheel rect deltaY cX cY s"
| "step rect s (TimerFires h uuid) = fireTimer h uuid s"

definition run :: "DOMRect option \<Rightarrow> State \<Rightarrow> Event list \<Rightarrow> State" where
  "run rect s events = foldl (step rect) s events"

subsection \<open>Handlers as closures of a render\<close>

text \<open>
  \<open>run\<close> is the component that has re-rendered when the next event arrives. The source
  does not force that: every handler is a \<open>useCallback\<close> closure, so each state variable it
  reads (\<open>temporaryDot\<close>, \<open>draggedDotId\<close>, \<open>longPressTimer\<close>, \<open>transform\<close>, ...) has the value
  of the render that created the handler, while its \<open>setState\<close> calls act on the state at
  the time of the call: a value replaces the cell, a function (\<open>setDots((prev) => ...)\<close>) is
  applied to its content. Below, \<open>snap\<close> is the state of the render a handler belongs to
  and \<open>cur\<close> the state its updates act on. The timers are the browser's: \<open>setTimeout\<close> and
  \<open>clearTimeout\<close> act at once, and the callback of a timer remembers the
  \<open>screenToTarget\<close> of the render that scheduled it. With \<open>snap = cur\<close> each handler is the
  one defined above (lemma \<open>stepAt_rendered\<close>).
\<close>

definition setTimeoutAt :: "TimerOwner \<Rightarrow> real \<Rightarrow> real \<Rightarrow> State \<Rightarrow> State \<Rightarrow> State" where
  "setTimeoutAt owner x y snap cur =
     cur\<lparr>pendingTimers :=
           pendingTimers cur @
             [\<lparr>tm_handle = nextHandle cur, tm_owner = owner, tm_x = x, tm_y = y,
               tm_transform = transform snap\<rparr>],
         nextHandle := nextHandle cur + 1\<rparr>"

definition cancelLongPressAt :: "State \<Rightarrow> State \<Rightarrow> State" where
  "cancelLongPressAt snap cur =
     (if truthy_handle (longPressTimer snap)
      then (clearTimeout (the (longPressTimer snap)) cur)\<lparr>longPressTimer := None\<rparr>
      else cur)"

definition handleTouchStartAt ::
  "DOMRect option \<Rightarrow> nat \<Rightarrow> Touch list \<Rightarrow> State \<Rightarrow> State \<Rightarrow> State" where
  "handleTouchStartAt rect now touches snap cur =
     (case touches of
        [touch] \<Rightarrow>
          (case rect of
             None \<Rightarrow> cur
           | Some r \<Rightarrow>
               (let x = clientX touch - rect_left r;
                    y = clientY touch - rect_top r;
                    cur1 = cur\<lparr>touchStartInfo :=
                                 Some \<lparr>ts_x = x, ts_y = y, ts_time = now, ts_longPress = False\<rparr>,
                               wasPinch := False\<rparr>;
                    timer = nextHandle cur1
                in (setTimeoutAt TouchPress x y snap cur1)\<lparr>longPressTimer := Some timer\<rparr>))
      | [touch1, touch2] \<Rightarrow>
          (let cur1 = cancelLongPressAt snap cur
           in case rect of
                None \<Rightarrow> cur1
              | Some r \<Rightarrow>
                  (let x1 = clientX touch1 - rect_left r;
                       y1 = clientY touch1 - rect_top r;
                       x2 = clientX touch2 - rect_left r;
                       y2 = clientY touch2 - rect_top r;
                       distance = getDistance x1 y1 x2 y2;
                       center = getCenter x1 y1 x2 y2
                   in cur1\<lparr>lastTouchDistance := Some distance,
                           lastTouchCenter := Some center,
                           wasPinch := True\<rparr>))
      | _ \<Rightarrow> cur)"

definition dragTemporaryDotAt :: "real \<Rightarrow> real \<Rightarrow> State \<Rightarrow> State \<Rightarrow> State" where
  "dragTemporaryDotAt x y snap cur =
     (let target = screenToTarget (transform snap) x y;
          ringIndex = getRingAtPoint (p_x target) (p_y target)
      in cur\<lparr>temporaryDot :=
                map_option (\<lambda>prev. prev\<lparr>dot_x := p_x target, dot_y := p_y target\<rparr>)
                  (temporaryDot cur),
              highlightedRing := ringIndex\<rparr>)"

definition handleTouchMoveAt :: "DOMRect option \<Rightarrow> Touch list \<Rightarrow> State \<Rightarrow> State \<Rightarrow> State" where
  "handleTouchMoveAt rect touches snap cur =
     (if length touches = 1 \<and> temporaryDot snap \<noteq> None \<and> truthy_string (draggedDotId snap)
      then (case rect of
              None \<Rightarrow> cur
            | Some r \<Rightarrow>
                (let touch = hd touches
                 in dragTemporaryDotAt (clientX touch - rect_left r) (clientY touch - rect_top r)
                      snap cur))
      else if length touches = 2 \<and> truthy_number (lastTouchDistance snap)
                \<and> lastTouchCenter snap \<noteq> None
      then (case rect of
              None \<Rightarrow> cur
            | Some r \<Rightarrow>
                (let touch1 = touches ! 0;
                     touch2 = touches ! 1;
                     x1 = clientX touch1 - rect_left r;
                     y1 = clientY touch1 - rect_top r;
                     x2 = clientX touch2 - rect_left r;
                     y2 = clientY touch2 - rect_top r;
                     distance = getDistance x1 y1 x2 y2;
                     center = getCenter x1 y1 x2 y2;
                     scaleChange = distance / the (lastTouchDistance snap);
                     newScale = max (1 / 10) (min 5 (t_scale (transform snap) * scaleChange));
                     deltaX = p_x center - p_x (the (lastTouchCenter snap));
                     deltaY = p_y center - p_y (the (lastTouchCenter snap));
                     prev = transform cur
                 in cur\<lparr>transform :=
                           \<lparr>t_x = t_x prev + deltaX, t_y = t_y prev + deltaY, t_scale = newScale\<rparr>,
                         lastTouchDistance := Some distance,
                         lastTouchCenter := Some center\<rparr>))
      else cur)"

definition commitTemporaryDotAt :: "State \<Rightarrow> State \<Rightarrow> State" where
  "commitTemporaryDotAt snap cur =
     cur\<lparr>dots := dots cur @
                [(the (temporaryDot snap))\<lparr>isTemporary := False, isDragging := False\<rparr>],
         temporaryDot := None,
         draggedDotId := None,
         highlightedRing := None\<rparr>"

definition addDotAtAt :: "string \<Rightarrow> real \<Rightarrow> real \<Rightarrow> State \<Rightarrow> State \<Rightarrow> State" where
  "addDotAtAt uuid x y snap cur =
     (let target = screenToTarget (transform snap) x y
      in cur\<lparr>dots := dots cur @
                [\<lparr>dot_id = uuid, dot_x = p_x target, dot_y = p_y target,
                  isTemporary = False, isDragging = False\<rparr>]\<rparr>)"

definition handleTouchEndAt :: "string \<Rightarrow> Touch list \<Rightarrow> State \<Rightarrow> State \<Rightarrow> State" where
  "handleTouchEndAt uuid touches snap cur =
     (let cur1 = cancelLongPressAt snap cur
      in if length touches = 0
         then (let cur2 =
                     (if truthy_string (draggedDotId snap) \<and> temporaryDot snap \<noteq> None
                      then commitTemporaryDotAt snap cur1
                      else if touchStartInfo snap \<noteq> None
                                \<and> \<not> ts_longPress (the (touchStartInfo snap)) \<and> \<not> wasPinch snap
                      then addDotAtAt uuid (ts_x (the (touchStartInfo snap)))
                             (ts_y (the (touchStartInfo snap))) snap cur1
                      else cur1)
               in cur2\<lparr>lastTouchDistance := None,
                       lastTouchCenter := None,
                       touchStartInfo := None,
                       wasPinch := False\<rparr>)
         else cur1)"

definition handleMouseDownAt ::
  "DOMRect option \<Rightarrow> nat \<Rightarrow> nat \<Rightarrow> real \<Rightarrow> real \<Rightarrow> State \<Rightarrow> State \<Rightarrow> State" where
  "handleMouseDownAt rect now button cX cY snap cur =
     (if button \<noteq> 0 then cur
      else case rect of
             None \<Rightarrow> cur
           | Some r \<Rightarrow>
               (let x = cX - rect_left r;
                    y = cY - rect_top r;
                    cur1 = cur\<lparr>mouseDownInfo :=
                                 Some \<lparr>md_x = x, md_y = y, md_screenX = cX, md_screenY = cY,
                                       md_time = now, md_longPress = False\<rparr>\<rparr>;
                    timer = nextHandle cur1
                in (setTimeoutAt MousePress x y snap cur1)\<lparr>longPressTimer := Some timer\<rparr>))"

definition handleMouseMoveAt ::
  "DOMRect option \<Rightarrow> real \<Rightarrow> real \<Rightarrow> State \<Rightarrow> State \<Rightarrow> State" where
  "handleMouseMoveAt rect cX cY snap cur =
     (if temporaryDot snap \<noteq> None \<and> truthy_string (draggedDotId snap)
      then (case rect of
              None \<Rightarrow> cur
            | Some r \<Rightarrow> dragTemporaryDotAt (cX - rect_left r) (cY - rect_top r) snap cur)
      else cur)"

definition handleMouseUpAt :: "string \<Rightarrow> State \<Rightarrow> State \<Rightarrow> State" where
  "handleMouseUpAt uuid snap cur =
     (let cur1 = cancelLongPressAt snap cur;
          cur2 = (if temporaryDot snap \<noteq> None \<and> truthy_string (draggedDotId snap)
                  then commitTemporaryDotAt snap cur1
                  else if mouseDownInfo snap \<noteq> None
                            \<and> \<not> md_longPress (the (mouseDownInfo snap))
                  then addDotAtAt uuid (md_x (the (mouseDownInfo snap)))
                         (md_y (the (mouseDownInfo snap))) snap cur1
                  else cur1)
      in cur2\<lparr>mouseDownInfo := None\<rparr>)"

definition handleWheelAt ::
  "DOMRect option \<Rightarrow> real \<Rightarrow> real \<Rightarrow> real \<Rightarrow> State \<Rightarrow> State \<Rightarrow> State" where
  "handleWheelAt rect deltaY cX cY snap cur =
     (let scaleBy = 11 / 10;
          oldScale = t_scale (transform snap);
          left = (case rect of None \<Rightarrow> 0 | Some r \<Rightarrow> rect_left r);
          top = (case rect of None \<Rightarrow> 0 | Some r \<Rightarrow> rect_top r);
          mousePointTo = screenToTarget (transform snap) (cX - left) (cY - top);
          newScale0 = (if deltaY < 0 then oldScale * scaleBy else oldScale / scaleBy);
          newScale = max (1 / 10) (min 5 newScale0)
      in cur\<lparr>transform :=
                \<lparr>t_x = cX - p_x mousePointTo * newScale,
                 t_y = cY - p_y mousePointTo * newScale,
                 t_scale = newScale\<rparr>\<rparr>)"

text \<open>
  The callback of a timer reads no state variable: it sets the temporary dot and the
  dragged identifier to values and updates the press record by a function, so
  \<open>fireTimer\<close> is the same on every snapshot.
\<close>

fun stepAt :: "DOMRect option \<Rightarrow> State \<Rightarrow> State \<Rightarrow> Event \<Rightarrow> State" where
  "stepAt rect snap cur (TouchStart now touches) = handleTouchStartAt rect now touches snap cur"
| "stepAt rect snap cur (TouchMove touches) = handleTouchMoveAt rect touches snap cur"
| "stepAt rect snap cur (TouchEnd uuid touches) = handleTouchEndAt uuid touches snap cur"
| "stepAt rect snap cur (MouseDown now button cX cY) =
     handleMouseDownAt rect now button cX cY snap cur"
| "stepAt rect snap cur (MouseMove cX cY) = handleMouseMoveAt rect cX cY snap cur"
| "stepAt rect snap cur (MouseUp uuid) = handleMouseUpAt uuid snap cur"
| "stepAt rect snap cur (Wheel deltaY cX cY) = handleWheelAt rect deltaY cX cY snap cur"
| "stepAt rect snap cur (TimerFires h uuid) = fireTimer h uuid cur"

text \<open>
  The component between two renders: the state of its last render, which its handlers
  read, and the state its updates have produced since. What happens to it is the
  delivery of an event to the handlers of the last render, or a render.
\<close>

record Component =
  rendered :: State
  current :: State

datatype Occurrence = Deliver Event | Render

fun occur :: "DOMRect option \<Rightarrow> Component \<Rightarrow> Occurrence \<Rightarrow> Component" where
  "occur rect c (Deliver e) = c\<lparr>current := stepAt rect (rendered c) (current c) e\<rparr>"
| "occur rect c Render = c\<lparr>rendered := current c\<rparr>"

definition runAt :: "DOMRect option \<Rightarrow> Component \<Rightarrow> Occurrence list \<Rightarrow> Component" where
  "runAt rect c occurrences = foldl (occur rect) c occurrences"

text \<open>
  Renders only; and what can happen while a temporary dot is dragged by one pointer:
  renders, mouse moves and single-touch moves.
\<close>

fun isRender :: "Occurrence \<Rightarrow> bool" where
  "isRender Render = True"
| "isRender (Deliver e) = False"

fun isDragOrRender :: "Occurrence \<Rightarrow> bool" where
  "isDragOrRender Render = True"
| "isDragOrRender (Deliver (MouseMove cX cY)) = True"
| "isDragOrRender (Deliver (TouchMove touches)) = (length touches = 1)"
| "isDragOrRender (Deliver (TouchStart now touches)) = False"
| "isDragOrRender (Deliver (TouchEnd uuid touches)) = False"
| "isDragOrRender (Deliver (MouseDown now button cX cY)) = False"
| "isDragOrRender (Deliver (MouseUp uuid)) = False"
| "isDragOrRender (Deliver (Wheel deltaY cX cY)) = False"
| "isDragOrRender (Deliver (TimerFires h uuid)) = False"

text \<open>
  A temporary dot is being dragged: the last render shows one, under the identifier
  \<open>uuid\<close>, and so does the current state; the transform and the committed dots are those
  of the state \<open>s\<close> the interaction started from.
\<close>

definition dragging :: "string \<Rightarrow> State \<Rightarrow> Component \<Rightarrow> bool" where
  "dragging uuid s c =
     (temporaryDot (rendered c) \<noteq> None \<and> draggedDotId (rendered c) = Some uuid
      \<and> transform (rendered c) = transform s
      \<and> (case temporaryDot (current c) of None \<Rightarrow> False | Some t \<Rightarrow> dot_id t = uuid)
      \<and> draggedDotId (current c) = Some uuid
      \<and> transform (current c) = transform s
      \<and> dots (current c) = dots s)"

subsection \<open>Interactions and well-formed states\<close>

text \<open>
  An interaction is a maximal sequence of events from a press to the release that ends
  it: \<open>handleMouseUp\<close> for the mouse, the \<open>touchend\<close> that leaves no touch on the screen
  for touches.
\<close>

fun isRelease :: "Event \<Rightarrow> bool" where
  "isRelease (MouseUp uuid) = True"
| "isRelease (TouchEnd uuid touches) = (touches = [])"
| "isRelease (TouchStart now touches) = False"
| "isRelease (TouchMove touches) = False"
| "isRelease (MouseDown now button cX cY) = False"
| "isRelease (MouseMove cX cY) = False"
| "isRelease (Wheel deltaY cX cY) = False"
| "isRelease (TimerFires h uuid) = False"

text \<open>
  The events that can reach the component inside a touch interaction once a second
  finger is down: further touch-starts (two touches or more on the screen), moves,
  touch-ends that leave a touch on the screen, timers, and the wheel and pointer moves
  that belong to no press. A mouse press or release is an interaction of its own.
\<close>

fun withinTouchInteraction :: "Event \<Rightarrow> bool" where
  "withinTouchInteraction (TouchStart now touches) = (2 \<le> length touches)"
| "withinTouchInteraction (TouchEnd uuid touches) = (touches \<noteq> [])"
| "withinTouchInteraction (MouseDown now button cX cY) = False"
| "withinTouchInteraction (MouseUp uuid) = False"
| "withinTouchInteraction (TouchMove touches) = True"
| "withinTouchInteraction (MouseMove cX cY) = True"
| "withinTouchInteraction (Wheel deltaY cX cY) = True"
| "withinTouchInteraction (TimerFires h uuid) = True"

text \<open>
  What every state reachable from \<open>initialState\<close> satisfies (lemma \<open>wellFormed_run\<close>): timer
  handles are positive, the pending ones are older than the next one, and the scale is
  within its bounds.
\<close>

definition wellFormed :: "State \<Rightarrow> bool" where
  "wellFormed s =
     (0 < nextHandle s
      \<and> list_all (\<lambda>t. tm_handle t < nextHandle s) (pendingTimers s)
      \<and> 1 / 10 \<le> t_scale (transform s) \<and> t_scale (transform s) \<le> 5)"

text \<open>Inputs of the worked scenarios: a canvas at the viewport's origin, a touch.\<close>

abbreviation canvasAtOrigin :: "DOMRect option" where
  "canvasAtOrigin \<equiv> Some \<lparr>rect_left = 0, rect_top = 0\<rparr>"

abbreviation touchAt :: "real \<Rightarrow> real \<Rightarrow> Touch" where
  "touchAt x y \<equiv> \<lparr>clientX = x, clientY = y\<rparr>"

section \<open>Properties\<close>

subsection \<open>The coordinate transform\<close>

text \<open>
  Claim C8. For every point \<open>p\<close> and every transform whose scale is not zero, converting
  \<open>p\<close> from screen to board coordinates (\<open>screenToTarget\<close>) and back (\<open>targetToScreen\<close>)
  returns \<open>p\<close>.
\<close>

theorem screen_board_roundtrip:
  "t_scale T \<noteq> 0 \<Longrightarrow>
     targetToScreen T (p_x (screenToTarget T px py)) (p_y (screenToTarget T px py))
       = \<lparr>p_x = px, p_y = py\<rparr>"
  by (simp add: targetToScreen_def screenToTarget_def)

theorem screen_board_roundtrip_witness:
  "t_scale \<lparr>t_x = 400, t_y = 300, t_scale = 2\<rparr> \<noteq> 0 \<and>
   targetToScreen \<lparr>t_x = 400, t_y = 300, t_scale = 2\<rparr>
     (p_x (screenToTarget \<lparr>t_x = 400, t_y = 300, t_scale = 2\<rparr> 7 9))
     (p_y (screenToTarget \<lparr>t_x = 400, t_y = 300, t_scale = 2\<rparr> 7 9))
     = \<lparr>p_x = 7, p_y = 9\<rparr>"
  using screen_board_roundtrip [of "\<lparr>t_x = 400, t_y = 300, t_scale = 2\<rparr>" 7 9] by simp

subsection \<open>Ring hit test\<close>

lemma length_ringColors: "length ringColors = 10"
  by (simp add: ringColors_def)

lemma length_getRings: "length getRings = 10"
  by (simp add: getRings_def length_ringColors)

lemma outerRadius_getRings:
  "i < 10 \<Longrightarrow> outerRadius (getRings ! i) = 180 - 18 * real i"
  by (simp add: getRings_def length_ringColors nth_enumerate_eq initialRingRadius_def
      ringGap_def Let_def)

lemma innerRadius_getRings:
  "i < 10 \<Longrightarrow> innerRadius (getRings ! i) = 162 - 18 * real i"
  by (simp add: getRings_def length_ringColors nth_enumerate_eq initialRingRadius_def
      ringGap_def Let_def)

lemma ringLoop_Some:
  "ringLoop rings d i = Some k \<Longrightarrow>
     i \<le> k \<and> k < length rings \<and> d \<le> outerRadius (rings ! k) \<and> innerRadius (rings ! k) < d"
proof (induction rings d i rule: ringLoop.induct)
  case (1 rings distance i)
  show ?case
  proof (cases "i < length rings")
    case False
    with "1.prems" show ?thesis by (simp add: ringLoop.simps [of rings distance i])
  next
    case inb: True
    show ?thesis
    proof (cases "distance \<le> outerRadius (rings ! i) \<and> innerRadius (rings ! i) < distance")
      case True
      with inb "1.prems" show ?thesis by (simp add: ringLoop.simps [of rings distance i])
    next
      case False
      with inb "1.prems" have "ringLoop rings distance (i + 1) = Some k"
        by (simp add: ringLoop.simps [of rings distance i] Let_def)
      with "1.IH" [OF inb refl] False have
        "i + 1 \<le> k \<and> k < length rings \<and> distance \<le> outerRadius (rings ! k)
          \<and> innerRadius (rings ! k) < distance"
        by auto
      then show ?thesis by simp
    qed
  qed
qed

lemma ringLoop_None:
  "ringLoop rings d i = None \<Longrightarrow> i \<le> j \<Longrightarrow> j < length rings \<Longrightarrow>
     \<not> (d \<le> outerRadius (rings ! j) \<and> innerRadius (rings ! j) < d)"
proof (induction rings d i rule: ringLoop.induct)
  case (1 rings distance i)
  from "1.prems" have inb: "i < length rings" by simp
  show ?case
  proof (cases "distance \<le> outerRadius (rings ! i) \<and> innerRadius (rings ! i) < distance")
    case True
    with inb "1.prems" show ?thesis by (simp add: ringLoop.simps [of rings distance i])
  next
    case False
    with inb "1.prems" have n: "ringLoop rings distance (i + 1) = None"
      by (simp add: ringLoop.simps [of rings distance i] Let_def)
    show ?thesis
    proof (cases "j = i")
      case True
      with False show ?thesis by simp
    next
      case False
      with "1.prems" have "i + 1 \<le> j" by simp
      with "1.IH" [OF inb refl _ n] \<open>\<not> (distance \<le> outerRadius (rings ! i) \<and> innerRadius (rings ! i) < distance)\<close> "1.prems"
      show ?thesis by blast
    qed
  qed
qed

lemma ring_exists:
  assumes "0 < d" "d \<le> 180"
  shows "\<exists>i<10. 162 - 18 * real i < d \<and> d \<le> 180 - 18 * real i"
proof -
  define z where "z = (180 - d) / 18"
  define i where "i = nat \<lfloor>z\<rfloor>"
  have d: "d = 180 - 18 * z" unfolding z_def by (simp add: field_simps)
  have "0 \<le> z" using assms by (simp add: z_def)
  then have fl: "real i = of_int \<lfloor>z\<rfloor>" by (simp add: i_def)
  have "of_int \<lfloor>z\<rfloor> \<le> z" by (rule of_int_floor_le)
  then have lo: "real i \<le> z" using fl by simp
  have "z < of_int \<lfloor>z\<rfloor> + 1" by linarith
  then have hi: "z < real i + 1" using fl by simp
  have "z < 10" using assms by (simp add: z_def)
  with lo have "real i < 10" by linarith
  then have "i < 10" by simp
  moreover have "162 - 18 * real i < d" using hi d by linarith
  moreover have "d \<le> 180 - 18 * real i" using lo d by linarith
  ultimately show ?thesis by blast
qed

lemma ring_unique:
  assumes "162 - 18 * real i < d" "d \<le> 180 - 18 * real i"
    and "162 - 18 * real j < d" "d \<le> 180 - 18 * real j"
  shows "i = j"
proof -
  have "real i < real j + 1" "real j < real i + 1" using assms by linarith+
  then show ?thesis by linarith
qed

text \<open>
  Claim C6. \<open>getRingAtPoint\<close> partitions the plane. With \<open>d\<close> the distance of the point
  from the board origin: when \<open>0 < d \<le> outerRadius(0)\<close>, exactly one ring index \<open>i\<close> has
  \<open>innerRadius(i) < d \<le> outerRadius(i)\<close>, and \<open>getRingAtPoint\<close> returns an index with that
  property (hence that one); when \<open>d > outerRadius(0)\<close> or \<open>d = 0\<close> it returns none.
\<close>

theorem getRingAtPoint_partition:
  "(let d = sqrt (x * x + y * y) in
     (0 < d \<and> d \<le> outerRadius (getRings ! 0) \<longrightarrow>
        (\<exists>!i. i < length getRings \<and> innerRadius (getRings ! i) < d \<and> d \<le> outerRadius (getRings ! i))
        \<and> (\<exists>i. getRingAtPoint x y = Some i \<and> i < length getRings
               \<and> innerRadius (getRings ! i) < d \<and> d \<le> outerRadius (getRings ! i)))
     \<and> (outerRadius (getRings ! 0) < d \<or> d = 0 \<longrightarrow> getRingAtPoint x y = None))"
proof -
  define d where "d = sqrt (x * x + y * y)"
  have o0: "outerRadius (getRings ! 0) = 180" using outerRadius_getRings [of 0] by simp
  have holds: "i < 10 \<Longrightarrow>
      (innerRadius (getRings ! i) < d \<and> d \<le> outerRadius (getRings ! i))
        = (162 - 18 * real i < d \<and> d \<le> 180 - 18 * real i)" for i
    by (simp add: outerRadius_getRings innerRadius_getRings)
  have loop: "getRingAtPoint x y = ringLoop getRings d 0"
    by (simp add: getRingAtPoint_def d_def)
  have inside: "(\<exists>!i. i < length getRings \<and> innerRadius (getRings ! i) < d \<and> d \<le> outerRadius (getRings ! i))
        \<and> (\<exists>i. getRingAtPoint x y = Some i \<and> i < length getRings
               \<and> innerRadius (getRings ! i) < d \<and> d \<le> outerRadius (getRings ! i))"
    if "0 < d" "d \<le> 180"
  proof
    from ring_exists [OF that] obtain i where
      i: "i < 10" "162 - 18 * real i < d" "d \<le> 180 - 18 * real i" by blast
    show "\<exists>!i. i < length getRings \<and> innerRadius (getRings ! i) < d \<and> d \<le> outerRadius (getRings ! i)"
    proof (rule ex1I [of _ i])
      show "i < length getRings \<and> innerRadius (getRings ! i) < d \<and> d \<le> outerRadius (getRings ! i)"
        using i holds [of i] by (simp add: length_getRings)
    next
      fix j
      assume "j < length getRings \<and> innerRadius (getRings ! j) < d \<and> d \<le> outerRadius (getRings ! j)"
      then have "j < 10" "162 - 18 * real j < d" "d \<le> 180 - 18 * real j"
        using holds [of j] by (simp_all add: length_getRings)
      then show "j = i" using i ring_unique by blast
    qed
    show "\<exists>i. getRingAtPoint x y = Some i \<and> i < length getRings
               \<and> innerRadius (getRings ! i) < d \<and> d \<le> outerRadius (getRings ! i)"
    proof (cases "ringLoop getRings d 0")
      case None
      from ringLoop_None [OF None, of i] i holds [of i] show ?thesis
        by (simp add: length_getRings)
    next
      case (Some k)
      from ringLoop_Some [OF Some] show ?thesis using Some loop by auto
    qed
  qed
  have outside: "getRingAtPoint x y = None" if "180 < d \<or> d = 0"
  proof (cases "ringLoop getRings d 0")
    case None
    then show ?thesis using loop by simp
  next
    case (Some k)
    from ringLoop_Some [OF Some] have
      k: "k < 10" "162 - 18 * real k < d" "d \<le> 180 - 18 * real k"
      using holds [of k] by (simp_all add: length_getRings)
    have "real k \<le> 9" using k(1) by simp
    with k that show ?thesis by auto
  qed
  show ?thesis
    unfolding Let_def d_def [symmetric] o0 using inside outside by blast
qed

lemma sqrt_2500: "sqrt (30 * 30 + 40 * 40) = 50"
proof -
  have "sqrt (50 * 50) = 50" by simp
  then show ?thesis by simp
qed

theorem getRingAtPoint_partition_witness:
  "0 < sqrt (30 * 30 + 40 * 40) \<and> sqrt (30 * 30 + 40 * 40) \<le> outerRadius (getRings ! 0)
   \<and> getRingAtPoint 30 40 = Some 7 \<and> getRingAtPoint 0 0 = None"
proof -
  have o0: "outerRadius (getRings ! 0) = 180" using outerRadius_getRings [of 0] by simp
  from getRingAtPoint_partition [of 30 40] obtain i where
    i: "getRingAtPoint 30 40 = Some i" "i < 10" "162 - 18 * real i < 50" "50 \<le> 180 - 18 * real i"
    unfolding Let_def sqrt_2500 o0
    by (auto simp: length_getRings outerRadius_getRings innerRadius_getRings)
  have "i = 7" using ring_unique [of i 50 7] i by simp
  moreover from getRingAtPoint_partition [of 0 0] have "getRingAtPoint 0 0 = None"
    by (simp add: Let_def)
  ultimately show ?thesis using i(1) by (simp add: sqrt_2500 o0)
qed

subsection \<open>Enclosing circle\<close>

lemma foldl_plus_sum_list:
  "foldl (\<lambda>sum dot. sum + f dot) (a::real) xs = a + sum_list (map f xs)"
  by (induction xs arbitrary: a) (simp_all add: add.assoc)

lemma Math_max_Max: "xs \<noteq> [] \<Longrightarrow> Math_max xs = Max (set xs)"
proof (induction xs rule: Math_max.induct)
  case (1 d)
  show ?case by simp
next
  case (2 d e ds)
  have "Math_max (d # e # ds) = Max (set (max d e # ds))" using 2 by simp
  also have "\<dots> = Max (insert (max d e) (set ds))" by simp
  also have "\<dots> = Max (insert d (insert e (set ds)))"
  proof (cases "ds = []")
    case True
    then show ?thesis by (simp add: max_def)
  next
    case False
    then show ?thesis by (simp add: max.assoc)
  qed
  finally show ?case by simp
next
  case 3
  then show ?case by simp
qed

text \<open>
  Claim C5. \<open>calculateEnclosingCircle\<close> of no dots is none; of one dot \<open>p\<close> it is the circle
  of centre \<open>p\<close> and radius 0; of any non-empty list it is the circle whose centre is the
  centroid of the dots and whose radius is the greatest distance from the centroid to a
  dot, so every dot lies within the radius of the centre.
\<close>

theorem calculateEnclosingCircle_spec:
  "calculateEnclosingCircle [] = None \<and>
   calculateEnclosingCircle [p] = Some \<lparr>c_x = dot_x p, c_y = dot_y p, radius = 0\<rparr> \<and>
   (ds \<noteq> [] \<longrightarrow>
      (\<exists>c. calculateEnclosingCircle ds = Some c
         \<and> c_x c = sum_list (map dot_x ds) / real (length ds)
         \<and> c_y c = sum_list (map dot_y ds) / real (length ds)
         \<and> radius c = Max ((\<lambda>d. getDistance (c_x c) (c_y c) (dot_x d) (dot_y d)) ` set ds)
         \<and> (\<forall>d \<in> set ds. getDistance (c_x c) (c_y c) (dot_x d) (dot_y d) \<le> radius c)))"
proof (intro conjI impI)
  show "calculateEnclosingCircle [] = None" by simp
  show "calculateEnclosingCircle [p] = Some \<lparr>c_x = dot_x p, c_y = dot_y p, radius = 0\<rparr>"
    by simp
next
  assume ne: "ds \<noteq> []"
  define cx where "cx = sum_list (map dot_x ds) / real (length ds)"
  define cy where "cy = sum_list (map dot_y ds) / real (length ds)"
  define dist where "dist = (\<lambda>d::Dot. getDistance cx cy (dot_x d) (dot_y d))"
  define r where "r = Math_max (map dist ds)"
  from ne obtain d0 ds0 where ds: "ds = d0 # ds0" by (cases ds) auto
  have circ: "calculateEnclosingCircle ds = Some \<lparr>c_x = cx, c_y = cy, radius = r\<rparr>"
    unfolding ds calculateEnclosingCircle.simps Let_def
    by (simp add: foldl_plus_sum_list o_def cx_def cy_def r_def dist_def getDistance_def ds)
  have r: "r = Max (dist ` set ds)"
    using ne by (simp add: r_def Math_max_Max)
  have "\<forall>d \<in> set ds. dist d \<le> r"
    unfolding r by simp
  with circ r show "\<exists>c. calculateEnclosingCircle ds = Some c
         \<and> c_x c = sum_list (map dot_x ds) / real (length ds)
         \<and> c_y c = sum_list (map dot_y ds) / real (length ds)
         \<and> radius c = Max ((\<lambda>d. getDistance (c_x c) (c_y c) (dot_x d) (dot_y d)) ` set ds)
         \<and> (\<forall>d \<in> set ds. getDistance (c_x c) (c_y c) (dot_x d) (dot_y d) \<le> radius c)"
    by (simp add: cx_def cy_def dist_def)
qed

theorem calculateEnclosingCircle_spec_witness:
  "[\<lparr>dot_id = ''a'', dot_x = 0, dot_y = 0, isTemporary = False, isDragging = False\<rparr>,
    \<lparr>dot_id = ''b'', dot_x = 10, dot_y = 0, isTemporary = False, isDragging = False\<rparr>,
    \<lparr>dot_id = ''c'', dot_x = 0, dot_y = 10, isTemporary = False, isDragging = False\<rparr>] \<noteq> [] \<and>
   (\<exists>c. calculateEnclosingCircle
          [\<lparr>dot_id = ''a'', dot_x = 0, dot_y = 0, isTemporary = False, isDragging = False\<rparr>,
           \<lparr>dot_id = ''b'', dot_x = 10, dot_y = 0, isTemporary = False, isDragging = False\<rparr>,
           \<lparr>dot_id = ''c'', dot_x = 0, dot_y = 10, isTemporary = False, isDragging = False\<rparr>]
          = Some c
      \<and> c_x c = 10 / 3 \<and> c_y c = 10 / 3
      \<and> getDistance (c_x c) (c_y c) 0 0 \<le> radius c
      \<and> getDistance (c_x c) (c_y c) 10 0 \<le> radius c
      \<and> getDistance (c_x c) (c_y c) 0 10 \<le> radius c)"
  using calculateEnclosingCircle_spec
    [of "\<lparr>dot_id = ''a'', dot_x = 0, dot_y = 0, isTemporary = False, isDragging = False\<rparr>"
        "[\<lparr>dot_id = ''a'', dot_x = 0, dot_y = 0, isTemporary = False, isDragging = False\<rparr>,
          \<lparr>dot_id = ''b'', dot_x = 10, dot_y = 0, isTemporary = False, isDragging = False\<rparr>,
          \<lparr>dot_id = ''c'', dot_x = 0, dot_y = 10, isTemporary = False, isDragging = False\<rparr>]"]
  by auto

subsection \<open>The scale of the transform\<close>

lemma transform_clearTimeout [simp]: "transform (clearTimeout h s) = transform s"
  by (simp add: clearTimeout_def)

lemma transform_cancelLongPress [simp]: "transform (cancelLongPress s) = transform s"
  by (simp add: cancelLongPress_def)

lemma transform_setTimeout [simp]: "transform (setTimeout owner x y s) = transform s"
  by (simp add: setTimeout_def)

lemma transform_longPress [simp]: "transform (longPress uuid tm s) = transform s"
  by (simp add: longPress_def Let_def split: TimerOwner.splits)

lemma transform_handleTouchStart [simp]:
  "transform (handleTouchStart rect now touches s) = transform s"
  by (simp add: handleTouchStart_def Let_def split: list.splits option.splits)

lemma transform_dragTemporaryDot [simp]: "transform (dragTemporaryDot x y s) = transform s"
  by (simp add: dragTemporaryDot_def Let_def)

lemma transform_commitTemporaryDot [simp]: "transform (commitTemporaryDot s) = transform s"
  by (simp add: commitTemporaryDot_def)

lemma transform_addDotAt [simp]: "transform (addDotAt uuid x y s) = transform s"
  by (simp add: addDotAt_def Let_def)

lemma transform_handleTouchEnd [simp]:
  "transform (handleTouchEnd uuid touches s) = transform s"
  by (simp add: handleTouchEnd_def Let_def)

lemma transform_handleMouseDown [simp]:
  "transform (handleMouseDown rect now button cX cY s) = transform s"
  by (simp add: handleMouseDown_def Let_def split: option.splits)

lemma transform_handleMouseMove [simp]:
  "transform (handleMouseMove rect cX cY s) = transform s"
  by (simp add: handleMouseMove_def split: option.splits)

lemma transform_handleMouseUp [simp]: "transform (handleMouseUp uuid s) = transform s"
  by (simp add: handleMouseUp_def Let_def)

lemma transform_fireTimer [simp]: "transform (fireTimer h uuid s) = transform s"
  by (simp add: fireTimer_def split: option.splits)

lemma clamp_bounds: "1 / 10 \<le> max (1 / 10) (min 5 (v::real)) \<and> max (1 / 10) (min 5 v) \<le> 5"
  by (simp add: max_def min_def)

lemma scale_handleWheel:
  "1 / 10 \<le> t_scale (transform (handleWheel rect deltaY cX cY s))
   \<and> t_scale (transform (handleWheel rect deltaY cX cY s)) \<le> 5"
proof -
  have "\<exists>w. t_scale (transform (handleWheel rect deltaY cX cY s)) = max (1 / 10) (min 5 w)"
    unfolding handleWheel_def Let_def by (intro exI) simp
  then show ?thesis using clamp_bounds by metis
qed

lemma scale_handleTouchMove:
  assumes "1 / 10 \<le> t_scale (transform s) \<and> t_scale (transform s) \<le> 5"
  shows "1 / 10 \<le> t_scale (transform (handleTouchMove rect touches s))
   \<and> t_scale (transform (handleTouchMove rect touches s)) \<le> 5"
proof -
  have "t_scale (transform (handleTouchMove rect touches s)) = t_scale (transform s)
      \<or> (\<exists>w. t_scale (transform (handleTouchMove rect touches s)) = max (1 / 10) (min 5 w))"
    unfolding handleTouchMove_def Let_def by (cases rect) auto
  then show ?thesis using clamp_bounds assms by metis
qed

lemma scale_step:
  assumes "1 / 10 \<le> t_scale (transform s) \<and> t_scale (transform s) \<le> 5"
  shows "1 / 10 \<le> t_scale (transform (step rect s e)) \<and> t_scale (transform (step rect s e)) \<le> 5"
proof (cases e)
  case (TouchMove touches)
  then show ?thesis using scale_handleTouchMove [OF assms] by simp
next
  case (Wheel deltaY cX cY)
  then show ?thesis using scale_handleWheel by simp
qed (use assms in simp_all)

lemma scale_run:
  assumes "1 / 10 \<le> t_scale (transform s) \<and> t_scale (transform s) \<le> 5"
  shows "1 / 10 \<le> t_scale (transform (run rect s events))
     \<and> t_scale (transform (run rect s events)) \<le> 5"
  using assms unfolding run_def
proof (induction events arbitrary: s)
  case Nil
  then show ?case by simp
next
  case (Cons e events)
  from Cons.IH [OF scale_step [OF Cons.prems]] show ?case by simp
qed

lemma pinch_move_transform:
  assumes "lastTouchDistance s = Some d" "d \<noteq> 0" "lastTouchCenter s = Some c"
  shows "transform (handleTouchMove (Some r) [touch1, touch2] s) =
           (let x1 = clientX touch1 - rect_left r; y1 = clientY touch1 - rect_top r;
                x2 = clientX touch2 - rect_left r; y2 = clientY touch2 - rect_top r;
                center = getCenter x1 y1 x2 y2
            in \<lparr>t_x = t_x (transform s) + (p_x center - p_x c),
                t_y = t_y (transform s) + (p_y center - p_y c),
                t_scale = max (1 / 10) (min 5 (t_scale (transform s) * (getDistance x1 y1 x2 y2 / d)))\<rparr>)"
  using assms by (simp add: handleTouchMove_def truthy_number_def Let_def)

lemma getDistance_horizontal: "getDistance x1 y x2 y = \<bar>x2 - x1\<bar>"
  by (simp add: getDistance_def)

lemmas eval_defs =
  run_def initialState_def handleTouchStart_def handleTouchMove_def handleTouchEnd_def
  handleMouseDown_def handleMouseMove_def handleMouseUp_def handleWheel_def fireTimer_def
  longPress_def setTimeout_def clearTimeout_def cancelLongPress_def commitTemporaryDot_def
  addDotAt_def dragTemporaryDot_def truthy_handle_def truthy_number_def truthy_string_def
  screenToTarget_def getCenter_def getDistance_horizontal Let_def

lemma pinch_baseline:
  "run canvasAtOrigin (initialState 800 600)
     [TouchStart 0 [touchAt 250 200], TouchStart 1 [touchAt 250 200, touchAt 350 200]]
   = (initialState 800 600)
       \<lparr>lastTouchDistance := Some 100, lastTouchCenter := Some \<lparr>p_x = 300, p_y = 200\<rparr>,
        touchStartInfo := Some \<lparr>ts_x = 250, ts_y = 200, ts_time = 0, ts_longPress = False\<rparr>,
        wasPinch := True, nextHandle := 2\<rparr>"
  by (simp add: eval_defs)

text \<open>
  Claim C9. The scale always lies in \<open>[0.1, 5]\<close>: after any sequence of events from the
  initial state (scale 1) it is within the bounds, whatever the wheel and pinch factors
  were. The component's only pan is the midpoint shift of a pinch move; a pinch move
  whose finger distance equals the last one (a pure pan) adds the midpoint's
  displacement to the offsets and leaves the scale as it was.
\<close>

theorem scale_always_clamped:
  "(1 / 10 \<le> t_scale (transform (run rect (initialState width height) events))
      \<and> t_scale (transform (run rect (initialState width height) events)) \<le> 5)
   \<and> (let s = run rect (initialState width height) events;
           x1 = clientX touch1 - rect_left r; y1 = clientY touch1 - rect_top r;
           x2 = clientX touch2 - rect_left r; y2 = clientY touch2 - rect_top r
       in lastTouchDistance s = Some d \<and> d \<noteq> 0 \<and> lastTouchCenter s = Some c
            \<and> getDistance x1 y1 x2 y2 = d \<longrightarrow>
          transform (handleTouchMove (Some r) [touch1, touch2] s) =
            \<lparr>t_x = t_x (transform s) + (p_x (getCenter x1 y1 x2 y2) - p_x c),
             t_y = t_y (transform s) + (p_y (getCenter x1 y1 x2 y2) - p_y c),
             t_scale = t_scale (transform s)\<rparr>)"
proof -
  define s where "s = run rect (initialState width height) events"
  have inv: "1 / 10 \<le> t_scale (transform s) \<and> t_scale (transform s) \<le> 5"
    unfolding s_def by (rule scale_run) (simp add: initialState_def)
  have clamp: "max (1 / 10) (min 5 (t_scale (transform s))) = t_scale (transform s)"
    using inv by (simp add: max_def min_def)
  show ?thesis
    unfolding Let_def s_def [symmetric]
    using inv clamp by (auto simp: pinch_move_transform Let_def)
qed

theorem scale_always_clamped_witness:
  "(let s = run canvasAtOrigin (initialState 800 600)
              [TouchStart 0 [touchAt 250 200], TouchStart 1 [touchAt 250 200, touchAt 350 200]]
    in 1 / 10 \<le> t_scale (transform s) \<and> t_scale (transform s) \<le> 5
       \<and> lastTouchDistance s = Some 100 \<and> (100::real) \<noteq> 0
       \<and> lastTouchCenter s = Some \<lparr>p_x = 300, p_y = 200\<rparr>
       \<and> getDistance 260 210 360 210 = 100
       \<and> transform (handleTouchMove canvasAtOrigin [touchAt 260 210, touchAt 360 210] s)
           = \<lparr>t_x = 410, t_y = 310, t_scale = 1\<rparr>)"
  using scale_always_clamped
    [of canvasAtOrigin 800 600
        "[TouchStart 0 [touchAt 250 200], TouchStart 1 [touchAt 250 200, touchAt 350 200]]"
        "touchAt 260 210" "\<lparr>rect_left = 0, rect_top = 0\<rparr>" "touchAt 360 210" 100
        "\<lparr>p_x = 300, p_y = 200\<rparr>"]
  unfolding pinch_baseline Let_def
  by (simp add: initialState_def getDistance_horizontal getCenter_def)

text \<open>
  Claim C7. A pinch move that arrives while the last recorded two-finger distance is
  zero takes neither branch of \<open>handleTouchMove\<close> (zero is falsy, so the quotient
  \<open>distance / lastTouchDistance\<close> is never formed): the whole state, the transform's scale
  included, is what it was.
\<close>

theorem pinch_zero_distance_noop:
  "lastTouchDistance s = Some 0 \<Longrightarrow> handleTouchMove rect [touch1, touch2] s = s"
  by (simp add: handleTouchMove_def truthy_number_def)

theorem pinch_zero_distance_noop_witness:
  "(let s = run canvasAtOrigin (initialState 800 600)
              [TouchStart 0 [touchAt 250 200, touchAt 250 200]]
    in lastTouchDistance s = Some 0
       \<and> handleTouchMove canvasAtOrigin [touchAt 200 200, touchAt 400 200] s = s)"
proof -
  define s where "s = run canvasAtOrigin (initialState 800 600)
              [TouchStart 0 [touchAt 250 200, touchAt 250 200]]"
  have d: "lastTouchDistance s = Some 0"
    unfolding s_def by (simp add: eval_defs)
  from pinch_zero_distance_noop [OF d] d show ?thesis
    unfolding Let_def s_def by simp
qed

subsection \<open>Zoom and its pivot\<close>

text \<open>
  The wheel handler recomputes the offsets from the board point under the cursor, so
  that point stays under the cursor (the canvas being at the viewport's origin: the
  handler subtracts the canvas offset when it reads the point and not when it writes the
  offsets).
\<close>

theorem wheel_zoom_keeps_pivot:
  assumes "t_scale (transform s) \<noteq> 0"
    and "rect = None \<or> rect = canvasAtOrigin"
  shows "(let b = screenToTarget (transform s) cX cY
          in targetToScreen (transform (handleWheel rect deltaY cX cY s)) (p_x b) (p_y b)
               = \<lparr>p_x = cX, p_y = cY\<rparr>)"
  using assms by (auto simp: handleWheel_def targetToScreen_def Let_def)

theorem wheel_zoom_keeps_pivot_witness:
  "t_scale (transform (initialState 800 600)) \<noteq> 0 \<and>
   (let b = screenToTarget (transform (initialState 800 600)) 300 200
    in b = \<lparr>p_x = - 100, p_y = - 100\<rparr> \<and>
       t_scale (transform (handleWheel canvasAtOrigin (- 1) 300 200 (initialState 800 600)))
         = 11 / 10 \<and>
       targetToScreen
         (transform (handleWheel canvasAtOrigin (- 1) 300 200 (initialState 800 600)))
         (p_x b) (p_y b) = \<lparr>p_x = 300, p_y = 200\<rparr>)"
proof -
  have nz: "t_scale (transform (initialState 800 600)) \<noteq> 0" by (simp add: initialState_def)
  have b: "screenToTarget (transform (initialState 800 600)) 300 200
      = \<lparr>p_x = - 100, p_y = - 100\<rparr>"
    by (simp add: initialState_def screenToTarget_def)
  have sc: "t_scale (transform (handleWheel canvasAtOrigin (- 1) 300 200 (initialState 800 600)))
      = 11 / 10"
    by (simp add: initialState_def handleWheel_def screenToTarget_def Let_def)
  from wheel_zoom_keeps_pivot [OF nz, of canvasAtOrigin 300 200 "- 1"] nz b sc
  show ?thesis by (simp add: Let_def)
qed

text \<open>
  Claim C1, at the input where the code departs from it. Two fingers 100 apart with
  midpoint \<open>M = (300, 200)\<close> move to 200 apart with the same midpoint. The scale doubles,
  but \<open>handleTouchMove\<close> only adds the midpoint's displacement (here zero) to the offsets:
  the board point under \<open>M\<close> was \<open>(-100, -100)\<close> and is \<open>(-50, -50)\<close> afterwards, and the
  point \<open>(-100, -100)\<close> is now drawn at \<open>(200, 100)\<close>.
\<close>

theorem pinch_zoom_moves_pivot:
  "(let s0 = run canvasAtOrigin (initialState 800 600)
               [TouchStart 0 [touchAt 250 200], TouchStart 1 [touchAt 250 200, touchAt 350 200]];
        s1 = step canvasAtOrigin s0 (TouchMove [touchAt 200 200, touchAt 400 200])
    in lastTouchDistance s0 = Some 100 \<and> lastTouchCenter s0 = Some \<lparr>p_x = 300, p_y = 200\<rparr>
       \<and> lastTouchDistance s1 = Some 200 \<and> lastTouchCenter s1 = Some \<lparr>p_x = 300, p_y = 200\<rparr>
       \<and> transform s0 = \<lparr>t_x = 400, t_y = 300, t_scale = 1\<rparr>
       \<and> transform s1 = \<lparr>t_x = 400, t_y = 300, t_scale = 2\<rparr>
       \<and> screenToTarget (transform s0) 300 200 = \<lparr>p_x = - 100, p_y = - 100\<rparr>
       \<and> screenToTarget (transform s1) 300 200 = \<lparr>p_x = - 50, p_y = - 50\<rparr>
       \<and> targetToScreen (transform s1) (- 100) (- 100) = \<lparr>p_x = 200, p_y = 100\<rparr>)"
  unfolding pinch_baseline Let_def
  by (simp add: eval_defs targetToScreen_def)

subsection \<open>Well-formed states\<close>

lemma find_fresh_timer:
  "list_all (\<lambda>t. tm_handle t < h) ts \<Longrightarrow> tm_handle tm = h \<Longrightarrow>
     find (\<lambda>t. tm_handle t = h) (ts @ [tm]) = Some tm"
  by (induction ts) auto

lemma filter_older_timers:
  "list_all (\<lambda>t. tm_handle t < h) ts \<Longrightarrow> filter (\<lambda>t. tm_handle t \<noteq> h) ts = ts"
  by (induction ts) auto

lemma run_Nil [simp]: "run rect s [] = s"
  by (simp add: run_def)

lemma run_Cons [simp]: "run rect s (e # es) = run rect (step rect s e) es"
  by (simp add: run_def)

lemma run_append: "run rect s (es @ es') = run rect (run rect s es) es'"
  by (simp add: run_def)

lemma screenToTarget_targetToScreen:
  "t_scale T \<noteq> 0 \<Longrightarrow>
     screenToTarget T (p_x (targetToScreen T bX bY)) (p_y (targetToScreen T bX bY))
       = \<lparr>p_x = bX, p_y = bY\<rparr>"
  by (simp add: screenToTarget_def targetToScreen_def)

lemma wellFormed_scale: "wellFormed s \<Longrightarrow> t_scale (transform s) \<noteq> 0"
  by (auto simp: wellFormed_def)

lemma wellFormed_timers:
  "wellFormed s \<Longrightarrow> list_all (\<lambda>t. tm_handle t < nextHandle s) (pendingTimers s)"
  by (simp add: wellFormed_def)

lemma wellFormed_initialState: "wellFormed (initialState width height)"
  by (simp add: wellFormed_def initialState_def)

lemma list_all_older:
  "list_all (\<lambda>t. tm_handle t < n) ts \<Longrightarrow> list_all (\<lambda>t. tm_handle t < Suc n) ts"
  by (induction ts) auto

lemma list_all_filter_older:
  "list_all (\<lambda>t. tm_handle t < n) ts \<Longrightarrow> list_all (\<lambda>t. tm_handle t < n) (filter P ts)"
  by (induction ts) auto

lemma wellFormed_step:
  assumes "wellFormed s"
  shows "wellFormed (step rect s e)"
proof -
  have scale: "1 / 10 \<le> t_scale (transform (step rect s e))
      \<and> t_scale (transform (step rect s e)) \<le> 5"
    using assms by (intro scale_step) (simp add: wellFormed_def)
  have timers: "0 < nextHandle (step rect s e)
      \<and> list_all (\<lambda>t. tm_handle t < nextHandle (step rect s e)) (pendingTimers (step rect s e))"
    using assms
    by (cases e)
      (auto simp: wellFormed_def handleTouchStart_def handleTouchMove_def handleTouchEnd_def
        handleMouseDown_def handleMouseMove_def handleMouseUp_def handleWheel_def fireTimer_def
        longPress_def setTimeout_def clearTimeout_def cancelLongPress_def commitTemporaryDot_def
        addDotAt_def dragTemporaryDot_def Let_def list_all_older list_all_filter_older
        split: list.splits option.splits TimerOwner.splits)
  from scale timers show ?thesis by (simp add: wellFormed_def)
qed

lemma wellFormed_run:
  "wellFormed s \<Longrightarrow> wellFormed (run rect s events)"
  by (induction events arbitrary: s) (simp_all add: wellFormed_step)

text \<open>
  Every state the component can reach from its initial state is well-formed, so the
  hypothesis \<open>wellFormed\<close> of the theorems below restricts nothing that can happen.
\<close>

theorem reachable_wellFormed:
  "wellFormed (run rect (initialState width height) events)"
  by (rule wellFormed_run [OF wellFormed_initialState])

subsection \<open>Long press, drag, release\<close>

text \<open>
  What the state is once the timer of a press has fired: the temporary dot sits at the
  board point of the press, and the press is marked as a long press.
\<close>

lemma mouse_long_press:
  assumes "list_all (\<lambda>t. tm_handle t < nextHandle s) (pendingTimers s)"
  shows "fireTimer (nextHandle s) uuid (handleMouseDown (Some r) now 0 cX cY s) =
     s\<lparr>temporaryDot :=
          Some \<lparr>dot_id = uuid,
                dot_x = p_x (screenToTarget (transform s) (cX - rect_left r) (cY - rect_top r)),
                dot_y = p_y (screenToTarget (transform s) (cX - rect_left r) (cY - rect_top r)),
                isTemporary = True, isDragging = True\<rparr>,
        longPressTimer := Some (nextHandle s),
        draggedDotId := Some uuid,
        mouseDownInfo :=
          Some \<lparr>md_x = cX - rect_left r, md_y = cY - rect_top r, md_screenX = cX,
                md_screenY = cY, md_time = now, md_longPress = True\<rparr>,
        nextHandle := nextHandle s + 1\<rparr>"
  using assms
  by (simp add: fireTimer_def handleMouseDown_def setTimeout_def clearTimeout_def longPress_def
      Let_def find_fresh_timer filter_older_timers)

lemma touch_long_press:
  assumes "list_all (\<lambda>t. tm_handle t < nextHandle s) (pendingTimers s)"
  shows "fireTimer (nextHandle s) uuid (handleTouchStart (Some r) now [touch] s) =
     s\<lparr>temporaryDot :=
          Some \<lparr>dot_id = uuid,
                dot_x = p_x (screenToTarget (transform s)
                               (clientX touch - rect_left r) (clientY touch - rect_top r)),
                dot_y = p_y (screenToTarget (transform s)
                               (clientX touch - rect_left r) (clientY touch - rect_top r)),
                isTemporary = True, isDragging = True\<rparr>,
        longPressTimer := Some (nextHandle s),
        draggedDotId := Some uuid,
        touchStartInfo :=
          Some \<lparr>ts_x = clientX touch - rect_left r, ts_y = clientY touch - rect_top r,
                ts_time = now, ts_longPress = True\<rparr>,
        wasPinch := False,
        nextHandle := nextHandle s + 1\<rparr>"
  using assms
  by (simp add: fireTimer_def handleTouchStart_def setTimeout_def clearTimeout_def longPress_def
      Let_def find_fresh_timer filter_older_timers)

text \<open>
  The handlers of a render that shows the current state are the handlers of \<open>step\<close>, and
  a component that renders after every event is \<open>run\<close>.
\<close>

lemma stepAt_rendered: "stepAt rect s s e = step rect s e"
  by (cases e)
    (auto simp: handleTouchStartAt_def handleTouchStart_def handleTouchMoveAt_def
      handleTouchMove_def handleTouchEndAt_def handleTouchEnd_def handleMouseDownAt_def
      handleMouseDown_def handleMouseMoveAt_def handleMouseMove_def handleMouseUpAt_def
      handleMouseUp_def handleWheelAt_def handleWheel_def setTimeoutAt_def setTimeout_def
      cancelLongPressAt_def cancelLongPress_def dragTemporaryDotAt_def dragTemporaryDot_def
      commitTemporaryDotAt_def commitTemporaryDot_def addDotAtAt_def addDotAt_def
      clearTimeout_def Let_def
      split: list.splits option.splits)

lemma runAt_Nil [simp]: "runAt rect c [] = c"
  by (simp add: runAt_def)

lemma runAt_Cons [simp]: "runAt rect c (x # xs) = runAt rect (occur rect c x) xs"
  by (simp add: runAt_def)

lemma runAt_append: "runAt rect c (xs @ ys) = runAt rect (runAt rect c xs) ys"
  by (simp add: runAt_def)

lemma runAt_rendered:
  "runAt rect \<lparr>rendered = s, current = s\<rparr> (concat (map (\<lambda>e. [Deliver e, Render]) events))
     = \<lparr>rendered = run rect s events, current = run rect s events\<rparr>"
  by (induction events arbitrary: s) (simp_all add: stepAt_rendered)

lemma runAt_renders:
  assumes "list_all isRender renders"
  shows "current (runAt rect c renders) = current c
     \<and> (rendered (runAt rect c renders) = rendered c
          \<or> rendered (runAt rect c renders) = current c)"
  using assms
proof (induction renders arbitrary: c)
  case Nil
  then show ?case by simp
next
  case (Cons x renders)
  then obtain "x = Render" and rest: "list_all isRender renders"
    by (cases x) simp_all
  with Cons.IH [OF rest, of "occur rect c x"] show ?case by auto
qed

lemma runAt_renders_fresh:
  assumes "list_all isRender renders" and "rendered c = current c"
  shows "runAt rect c renders = c"
  using assms
proof (induction renders arbitrary: c)
  case Nil
  then show ?case by simp
next
  case (Cons x renders)
  then have "x = Render" and rest: "list_all isRender renders"
    by (cases x; simp)+
  with Cons show ?case by simp
qed

lemma dragging_occur:
  assumes "dragging uuid s c" and "isDragOrRender x"
  shows "dragging uuid s (occur rect c x)"
proof (cases x)
  case Render
  with assms show ?thesis by (auto simp: dragging_def split: option.splits)
next
  case (Deliver e)
  with assms show ?thesis
    by (cases e)
      (auto simp: dragging_def handleMouseMoveAt_def handleTouchMoveAt_def
        dragTemporaryDotAt_def truthy_string_def Let_def split: option.splits)
qed

lemma dragging_runAt:
  assumes "dragging uuid s c" and "list_all isDragOrRender drags"
  shows "dragging uuid s (runAt rect c drags)"
  using assms
proof (induction drags arbitrary: c)
  case Nil
  then show ?case by simp
next
  case (Cons x drags)
  then have "dragging uuid s (occur rect c x)" and "list_all isDragOrRender drags"
    by (simp_all add: dragging_occur)
  with Cons.IH show ?case by simp
qed


lemma drag_to:
  assumes "dragging uuid s c" and "uuid \<noteq> []"
    and "move = MouseMove mX mY \<or> move = TouchMove [touchAt mX mY]"
  shows "dragging uuid s (occur (Some r) c (Deliver move))
     \<and> (\<exists>t. temporaryDot (current (occur (Some r) c (Deliver move))) = Some t
            \<and> dot_id t = uuid
            \<and> dot_x t = p_x (screenToTarget (transform s) (mX - rect_left r) (mY - rect_top r))
            \<and> dot_y t = p_y (screenToTarget (transform s) (mX - rect_left r) (mY - rect_top r)))"
  using assms
  by (auto simp: dragging_def handleMouseMoveAt_def handleTouchMoveAt_def
      dragTemporaryDotAt_def truthy_string_def Let_def split: option.splits)

lemma release_commits:
  assumes "temporaryDot sF = Some t" and "draggedDotId sF = Some uuid" and "uuid \<noteq> []"
    and "release = MouseUp uuid' \<or> release = TouchEnd uuid' []"
  shows "dots (stepAt rect sF sF release)
           = dots sF @ [t\<lparr>isTemporary := False, isDragging := False\<rparr>]
     \<and> temporaryDot (stepAt rect sF sF release) = None
     \<and> highlightedRing (stepAt rect sF sF release) = None"
  using assms
  by (auto simp: handleMouseUpAt_def handleTouchEndAt_def commitTemporaryDotAt_def
      cancelLongPressAt_def clearTimeout_def truthy_string_def Let_def)

lemma drag_and_release:
  assumes drag: "dragging uuid s c" and id: "uuid \<noteq> []"
    and drags: "list_all isDragOrRender drags"
    and renders: "list_all isRender renders"
    and move: "move = MouseMove mX mY \<or> move = TouchMove [touchAt mX mY]"
    and release: "release = MouseUp uuid' \<or> release = TouchEnd uuid' []"
  shows
    "(let target = screenToTarget (transform s) (mX - rect_left r) (mY - rect_top r);
          released = runAt (Some r) c
                   (drags @ [Deliver move, Render] @ renders @ [Deliver release])
      in dots (current released)
           = dots s @ [\<lparr>dot_id = uuid, dot_x = p_x target, dot_y = p_y target,
                         isTemporary = False, isDragging = False\<rparr>]
         \<and> temporaryDot (current released) = None \<and> highlightedRing (current released) = None)"
proof -
  define c1 where "c1 = runAt (Some r) c drags"
  define c2 where "c2 = occur (Some r) c1 (Deliver move)"
  define c3 where "c3 = occur (Some r) c2 Render"
  define c4 where "c4 = runAt (Some r) c3 renders"
  have d1: "dragging uuid s c1"
    unfolding c1_def by (rule dragging_runAt [OF drag drags])
  from drag_to [OF d1 id move, of r] obtain t where
    d2: "dragging uuid s c2" and
    t: "temporaryDot (current c2) = Some t" "dot_id t = uuid"
      "dot_x t = p_x (screenToTarget (transform s) (mX - rect_left r) (mY - rect_top r))"
      "dot_y t = p_y (screenToTarget (transform s) (mX - rect_left r) (mY - rect_top r))"
    unfolding c2_def by blast
  have fresh: "rendered c3 = current c3" "current c3 = current c2"
    by (simp_all add: c3_def)
  have c4: "c4 = c3"
    unfolding c4_def by (rule runAt_renders_fresh [OF renders fresh(1)])
  from d2 have cur: "draggedDotId (current c2) = Some uuid" "dots (current c2) = dots s"
    by (simp_all add: dragging_def)
  note rel = release_commits [OF t(1) cur(1) id release, of "Some r"]
  have whole: "runAt (Some r) c (drags @ [Deliver move, Render] @ renders @ [Deliver release])
      = occur (Some r) c4 (Deliver release)"
    by (simp add: runAt_append c1_def c2_def c3_def c4_def)
  have committed: "t\<lparr>isTemporary := False, isDragging := False\<rparr>
      = \<lparr>dot_id = uuid,
         dot_x = p_x (screenToTarget (transform s) (mX - rect_left r) (mY - rect_top r)),
         dot_y = p_y (screenToTarget (transform s) (mX - rect_left r) (mY - rect_top r)),
         isTemporary = False, isDragging = False\<rparr>"
    using t(2-4) by (cases t) simp
  show ?thesis
    unfolding Let_def whole c4
    using rel fresh cur committed by simp
qed


lemma held_after_press:
  assumes "list_all isRender renders"
  shows "current (runAt rect \<lparr>rendered = s, current = s\<rparr>
                    ([Deliver press] @ renders @ [Deliver (TimerFires h uuid)]))
           = fireTimer h uuid (step rect s press)"
proof -
  define c where "c = occur rect \<lparr>rendered = s, current = s\<rparr> (Deliver press)"
  define c' where "c' = runAt rect c renders"
  have "current c = step rect s press" by (simp add: c_def stepAt_rendered)
  with runAt_renders [OF assms, of rect c]
  have cur: "current c' = step rect s press" by (simp add: c'_def)
  have "runAt rect \<lparr>rendered = s, current = s\<rparr>
          ([Deliver press] @ renders @ [Deliver (TimerFires h uuid)])
        = occur rect c' (Deliver (TimerFires h uuid))"
    unfolding c'_def c_def by (simp add: runAt_append)
  then show ?thesis using cur by simp
qed

lemma dragging_after_long_press:
  assumes "current c = s2"
    and "map_option dot_id (temporaryDot s2) = Some uuid"
    and "draggedDotId s2 = Some uuid" and "transform s2 = transform s" and "dots s2 = dots s"
  shows "dragging uuid s (occur rect c Render)"
  using assms by (auto simp: dragging_def split: option.splits)



lemmas evalAt_defs =
  handleTouchStartAt_def handleTouchMoveAt_def handleTouchEndAt_def handleMouseDownAt_def
  handleMouseMoveAt_def handleMouseUpAt_def handleWheelAt_def setTimeoutAt_def
  cancelLongPressAt_def commitTemporaryDotAt_def addDotAtAt_def dragTemporaryDotAt_def


subsection \<open>Tap\<close>

lemma mouse_tap:
  assumes "wellFormed s" and "temporaryDot s = None"
  shows "handleMouseUp uuid (handleMouseDown (Some r) now 0 cX cY s) =
     s\<lparr>dots := dots s @
          [\<lparr>dot_id = uuid,
            dot_x = p_x (screenToTarget (transform s) (cX - rect_left r) (cY - rect_top r)),
            dot_y = p_y (screenToTarget (transform s) (cX - rect_left r) (cY - rect_top r)),
            isTemporary = False, isDragging = False\<rparr>],
        longPressTimer := None,
        mouseDownInfo := None,
        nextHandle := nextHandle s + 1\<rparr>"
  using assms
  by (simp add: handleMouseUp_def handleMouseDown_def setTimeout_def clearTimeout_def
      cancelLongPress_def truthy_handle_def addDotAt_def Let_def wellFormed_def
      filter_older_timers)

lemma touch_tap:
  assumes "wellFormed s" and "temporaryDot s = None"
  shows "handleTouchEnd uuid [] (handleTouchStart (Some r) now [touch] s) =
     s\<lparr>dots := dots s @
          [\<lparr>dot_id = uuid,
            dot_x = p_x (screenToTarget (transform s)
                           (clientX touch - rect_left r) (clientY touch - rect_top r)),
            dot_y = p_y (screenToTarget (transform s)
                           (clientX touch - rect_left r) (clientY touch - rect_top r)),
            isTemporary = False, isDragging = False\<rparr>],
        lastTouchDistance := None,
        lastTouchCenter := None,
        longPressTimer := None,
        touchStartInfo := None,
        wasPinch := False,
        nextHandle := nextHandle s + 1\<rparr>"
  using assms
  by (simp add: handleTouchEnd_def handleTouchStart_def setTimeout_def clearTimeout_def
      cancelLongPress_def truthy_handle_def addDotAt_def Let_def wellFormed_def
      filter_older_timers)



subsection \<open>Moves before the long press\<close>

lemma run_mouse_moves:
  "temporaryDot s = None \<Longrightarrow> run rect s (map (\<lambda>(x, y). MouseMove x y) moves) = s"
  by (induction moves) (auto simp: handleMouseMove_def)

lemma run_touch_moves:
  "temporaryDot s = None \<Longrightarrow> run rect s (map (\<lambda>(x, y). TouchMove [touchAt x y]) moves) = s"
  by (induction moves) (auto simp: handleTouchMove_def)

lemma temporaryDot_handleMouseDown:
  "temporaryDot (handleMouseDown rect now button cX cY s) = temporaryDot s"
  by (simp add: handleMouseDown_def setTimeout_def Let_def split: option.splits)

lemma temporaryDot_handleTouchStart_single:
  "temporaryDot (handleTouchStart rect now [touch] s) = temporaryDot s"
  by (simp add: handleTouchStart_def setTimeout_def Let_def split: option.splits)

text \<open>
  Claim C10. While no temporary dot exists, a mouse move and a single-touch move leave
  the whole state as it is: there is no move threshold that cancels the tap or the
  pending timer. Hence a press, any number of moves and the release (the timer not
  having fired) place the tap dot at the origin of the press, wherever the pointer was
  released.
\<close>

theorem early_move_is_ignored:
  assumes "wellFormed s" and "temporaryDot s = None"
  shows
    "handleMouseMove rect mX mY s = s \<and> handleTouchMove rect [touch] s = s \<and>
     (let origin = screenToTarget (transform s) (cX - rect_left r) (cY - rect_top r);
          placed = \<lparr>dot_id = uuid, dot_x = p_x origin, dot_y = p_y origin,
                     isTemporary = False, isDragging = False\<rparr>;
          mouse = run (Some r) s
                    (MouseDown now 0 cX cY # map (\<lambda>(x, y). MouseMove x y) moves @ [MouseUp uuid]);
          touch = run (Some r) s
                    (TouchStart now [touchAt cX cY] #
                       map (\<lambda>(x, y). TouchMove [touchAt x y]) moves @ [TouchEnd uuid []])
      in run (Some r) (step (Some r) s (MouseDown now 0 cX cY))
             (map (\<lambda>(x, y). MouseMove x y) moves)
           = step (Some r) s (MouseDown now 0 cX cY)
         \<and> run (Some r) (step (Some r) s (TouchStart now [touchAt cX cY]))
                (map (\<lambda>(x, y). TouchMove [touchAt x y]) moves)
           = step (Some r) s (TouchStart now [touchAt cX cY])
         \<and> dots mouse = dots s @ [placed] \<and> dots touch = dots s @ [placed])"
proof -
  have m: "temporaryDot (handleMouseDown (Some r) now 0 cX cY s) = None"
    using assms(2) by (simp add: temporaryDot_handleMouseDown)
  have t: "temporaryDot (handleTouchStart (Some r) now [touchAt cX cY] s) = None"
    using assms(2) by (simp add: temporaryDot_handleTouchStart_single)
  show ?thesis
    unfolding Let_def using assms(2)
    by (simp add: run_append run_mouse_moves [OF m] run_touch_moves [OF t]
        mouse_tap [OF assms] touch_tap [OF assms] handleMouseMove_def handleTouchMove_def)
qed

theorem early_move_is_ignored_witness:
  "wellFormed (initialState 800 600) \<and> temporaryDot (initialState 800 600) = None \<and>
   handleMouseMove canvasAtOrigin 500 500 (initialState 800 600) = initialState 800 600 \<and>
   dots (run canvasAtOrigin (initialState 800 600)
           [MouseDown 0 0 410 310, MouseMove 450 280, MouseMove 500 200, MouseUp ''u1''])
     = [\<lparr>dot_id = ''u1'', dot_x = 10, dot_y = 10, isTemporary = False, isDragging = False\<rparr>] \<and>
   dots (run canvasAtOrigin (initialState 800 600)
           [TouchStart 0 [touchAt 410 310], TouchMove [touchAt 450 280],
            TouchMove [touchAt 500 200], TouchEnd ''u1'' []])
     = [\<lparr>dot_id = ''u1'', dot_x = 10, dot_y = 10, isTemporary = False, isDragging = False\<rparr>]"
proof -
  have wf: "wellFormed (initialState 800 600)" by (rule wellFormed_initialState)
  have t: "temporaryDot (initialState 800 600) = None" by (simp add: initialState_def)
  have T: "transform (initialState 800 600) = \<lparr>t_x = 400, t_y = 300, t_scale = 1\<rparr>"
    by (simp add: initialState_def)
  have d: "dots (initialState 800 600) = []" by (simp add: initialState_def)
  from early_move_is_ignored
    [OF wf t, of canvasAtOrigin 500 500 _ 410 "\<lparr>rect_left = 0, rect_top = 0\<rparr>" 310
       "''u1''" 0 "[(450, 280), (500, 200)]"]
  have inst:
    "handleMouseMove canvasAtOrigin 500 500 (initialState 800 600) = initialState 800 600"
    "dots (run canvasAtOrigin (initialState 800 600)
             [MouseDown 0 0 410 310, MouseMove 450 280, MouseMove 500 200, MouseUp ''u1''])
       = [\<lparr>dot_id = ''u1'', dot_x = 10, dot_y = 10, isTemporary = False, isDragging = False\<rparr>]"
    "dots (run canvasAtOrigin (initialState 800 600)
             [TouchStart 0 [touchAt 410 310], TouchMove [touchAt 450 280],
              TouchMove [touchAt 500 200], TouchEnd ''u1'' []])
       = [\<lparr>dot_id = ''u1'', dot_x = 10, dot_y = 10, isTemporary = False, isDragging = False\<rparr>]"
    unfolding Let_def T d by (simp_all add: screenToTarget_def del: run_Cons step.simps)
  with wf t show ?thesis by simp
qed

subsection \<open>Dots per interaction\<close>

lemma dots_cancelLongPress [simp]: "dots (cancelLongPress s) = dots s"
  by (simp add: cancelLongPress_def clearTimeout_def)

lemma dots_step_no_release:
  "\<not> isRelease e \<Longrightarrow> dots (step rect s e) = dots s"
  by (cases e)
    (auto simp: handleTouchStart_def handleTouchMove_def handleTouchEnd_def
      handleMouseDown_def handleMouseMove_def handleWheel_def fireTimer_def
      longPress_def setTimeout_def clearTimeout_def dragTemporaryDot_def Let_def
      split: list.splits option.splits TimerOwner.splits)

lemma dots_run_no_release:
  "list_all (\<lambda>e. \<not> isRelease e) events \<Longrightarrow> dots (run rect s events) = dots s"
  by (induction events arbitrary: s) (simp_all add: dots_step_no_release)

lemma dots_handleMouseUp:
  "dots (handleMouseUp uuid s) = dots s
   \<or> (\<exists>d. dots (handleMouseUp uuid s) = dots s @ [d] \<and> \<not> isTemporary d \<and> \<not> isDragging d)"
  by (simp add: handleMouseUp_def commitTemporaryDot_def addDotAt_def Let_def)

lemma dots_handleTouchEnd:
  "dots (handleTouchEnd uuid touches s) = dots s
   \<or> (\<exists>d. dots (handleTouchEnd uuid touches s) = dots s @ [d]
         \<and> \<not> isTemporary d \<and> \<not> isDragging d)"
  by (simp add: handleTouchEnd_def commitTemporaryDot_def addDotAt_def Let_def)

lemma dots_step:
  "dots (step rect s e) = dots s
   \<or> (\<exists>d. dots (step rect s e) = dots s @ [d] \<and> \<not> isTemporary d \<and> \<not> isDragging d)"
proof (cases "isRelease e")
  case False
  then show ?thesis by (simp add: dots_step_no_release)
next
  case True
  then show ?thesis
    by (cases e) (use dots_handleMouseUp dots_handleTouchEnd in simp_all)
qed

lemma touch_release_cases:
  "dots (handleTouchEnd uuid [] s) = dots s
   \<or> (\<exists>t. temporaryDot s = Some t
         \<and> dots (handleTouchEnd uuid [] s)
             = dots s @ [t\<lparr>isTemporary := False, isDragging := False\<rparr>])
   \<or> (\<exists>info. touchStartInfo s = Some info \<and> \<not> ts_longPress info \<and> \<not> wasPinch s
         \<and> dots (handleTouchEnd uuid [] s)
             = dots s @
               [\<lparr>dot_id = uuid,
                 dot_x = p_x (screenToTarget (transform s) (ts_x info) (ts_y info)),
                 dot_y = p_y (screenToTarget (transform s) (ts_x info) (ts_y info)),
                 isTemporary = False, isDragging = False\<rparr>])"
  by (auto simp: handleTouchEnd_def commitTemporaryDot_def addDotAt_def cancelLongPress_def
      clearTimeout_def Let_def)

lemma pinch_body_step:
  assumes "temporaryDot s = None" and "pendingTimers s = []" and "wasPinch s"
    and "withinTouchInteraction e"
  shows "temporaryDot (step rect s e) = None \<and> pendingTimers (step rect s e) = []
     \<and> wasPinch (step rect s e) \<and> dots (step rect s e) = dots s"
  using assms
  by (cases e)
    (auto simp: handleTouchStart_def handleTouchMove_def handleTouchEnd_def
      handleMouseMove_def handleWheel_def fireTimer_def
      clearTimeout_def cancelLongPress_def Let_def
      split: list.splits option.splits)

lemma pinch_body_run:
  assumes "temporaryDot s = None" and "pendingTimers s = []" and "wasPinch s"
    and "list_all withinTouchInteraction body"
  shows "temporaryDot (run rect s body) = None \<and> pendingTimers (run rect s body) = []
     \<and> wasPinch (run rect s body) \<and> dots (run rect s body) = dots s"
  using assms
proof (induction body arbitrary: s)
  case Nil
  then show ?case by simp
next
  case (Cons e body)
  from Cons.prems have e: "withinTouchInteraction e" and rest: "list_all withinTouchInteraction body"
    by simp_all
  note st = pinch_body_step [OF Cons.prems(1-3) e, of rect]
  from Cons.IH [of "step rect s e"] st rest show ?case by simp
qed

lemma second_touch_cancels:
  assumes "wellFormed s" and "pendingTimers s = []"
  shows "handleTouchStart (Some r) now' [touch1', touch2]
           (handleTouchStart (Some r) now [touch1] s) =
     s\<lparr>lastTouchDistance :=
          Some (getDistance (clientX touch1' - rect_left r) (clientY touch1' - rect_top r)
                  (clientX touch2 - rect_left r) (clientY touch2 - rect_top r)),
        lastTouchCenter :=
          Some (getCenter (clientX touch1' - rect_left r) (clientY touch1' - rect_top r)
                  (clientX touch2 - rect_left r) (clientY touch2 - rect_top r)),
        longPressTimer := None,
        touchStartInfo :=
          Some \<lparr>ts_x = clientX touch1 - rect_left r, ts_y = clientY touch1 - rect_top r,
                ts_time = now, ts_longPress = False\<rparr>,
        wasPinch := True,
        nextHandle := nextHandle s + 1\<rparr>"
  using assms
  by (simp add: handleTouchStart_def setTimeout_def clearTimeout_def cancelLongPress_def
      truthy_handle_def wellFormed_def Let_def)

lemma release_after_pinch:
  assumes "temporaryDot s = None" and "wasPinch s"
  shows "dots (handleTouchEnd uuid [] s) = dots s"
  using assms
  by (simp add: handleTouchEnd_def cancelLongPress_def clearTimeout_def Let_def)




end
